theory Spec2Isabelle
  imports Complex_Main
begin

section \<open>Conventions\<close>

text \<open>
  The development embeds the comprehensive video analysis service
  (\<^verbatim>\<open>cloud-function-video-analysis/main.py\<close>, class \<^verbatim>\<open>VideoAnalysisService\<close>).

  \<^item> Python \<^verbatim>\<open>float\<close> values are modelled by the real numbers: every formula is read
    with exact arithmetic, rounding of IEEE doubles is outside the model.
  \<^item> A branch result is either the dictionary \<^verbatim>\<open>{'error': str(e)}\<close>, modelled as
    \<open>Inl e\<close>, or the dictionary of metrics, modelled as \<open>Inr\<close> of a record whose fields
    are the dictionary's keys.
  \<^item> The answers of the external services (speech recognition, storage download, video
    decoding, face detection) are inputs of the model; an exception raised by one of them
    is the input \<open>Inl (ServiceError msg)\<close>.
\<close>

datatype error = ServiceError string | IndexError | ZeroDivisionError

section \<open>Strings\<close>

text \<open>\<^verbatim>\<open>str.lower\<close> on ASCII letters; other characters are left as they are.\<close>

definition lower_char :: "char \<Rightarrow> char" where
  "lower_char c =
     (case map_of (zip ''ABCDEFGHIJKLMNOPQRSTUVWXYZ'' ''abcdefghijklmnopqrstuvwxyz'') c of
        Some d \<Rightarrow> d
      | None \<Rightarrow> c)"

definition lower :: "string \<Rightarrow> string" where
  "lower s = map lower_char s"

text \<open>\<^verbatim>\<open>s.strip(chars)\<close>: drop the leading and the trailing characters that are in \<open>chars\<close>.\<close>

definition strip :: "string \<Rightarrow> string \<Rightarrow> string" where
  "strip chars s =
     rev (dropWhile (\<lambda>c. c \<in> set chars) (rev (dropWhile (\<lambda>c. c \<in> set chars) s)))"

text \<open>\<^verbatim>\<open>sep.join(parts)\<close>.\<close>

fun join :: "string \<Rightarrow> string list \<Rightarrow> string" where
  "join sep [] = []"
| "join sep [p] = p"
| "join sep (p # q # ps) = p @ sep @ join sep (q # ps)"

section \<open>Statistics helpers\<close>

text \<open>\<^verbatim>\<open>sum(values) / len(values)\<close>, used only on non-empty lists.\<close>

definition mean :: "real list \<Rightarrow> real" where
  "mean values = sum_list values / real (length values)"

text \<open>\<^verbatim>\<open>np.std(values)\<close>: the population standard deviation.\<close>

definition np_std :: "real list \<Rightarrow> real" where
  "np_std values =
     sqrt (sum_list (map (\<lambda>x. (x - mean values)\<^sup>2) values) / real (length values))"

section \<open>Speech analysis\<close>

definition FILLER_WORDS :: "string list" where
  "FILLER_WORDS = [''um'', ''uh'', ''ah'', ''like'', ''you know'', ''so'', ''well'',
     ''actually'', ''basically'', ''literally'']"

text \<open>What the speech service returns: results, each with its alternatives, each with a
  transcript and the recognised words with their time offsets in seconds.\<close>

record word_info =
  wi_word :: string
  wi_start_time :: real
  wi_end_time :: real

record alternative =
  alt_transcript :: string
  alt_words :: "word_info list"

record recognition_result =
  alternatives :: "alternative list"

text \<open>An entry of \<^verbatim>\<open>word_timestamps\<close>.\<close>

record word_timestamp =
  word :: string
  start_time :: real
  end_time :: real
  duration :: real

subsection \<open>Pacing\<close>

record pacing =
  average_wpm :: real
  wpm_standard_deviation :: real
  pacing_consistency :: real
  wpm_timeline :: "real list"

definition window_size :: nat where
  "window_size = 10"

text \<open>The body of the loop over \<open>i\<close>: the rate of the window
  \<^verbatim>\<open>word_timestamps[i:i + window_size]\<close>.\<close>

definition window_wpm :: "word_timestamp list \<Rightarrow> nat \<Rightarrow> real" where
  "window_wpm word_timestamps i =
     (let window = take window_size (drop i word_timestamps);
          d = end_time (last window) - start_time (hd window)
      in if d > 0 then (real window_size / d) * 60 else 0)"

definition analyze_pacing_variations :: "word_timestamp list \<Rightarrow> string + pacing" where
  "analyze_pacing_variations word_timestamps =
     (if length word_timestamps < 10 then Inl ''Insufficient data for pacing analysis''
      else
        let window_wpms =
              map (window_wpm word_timestamps) [0 ..< length word_timestamps - window_size + 1];
            avg_wpm = sum_list window_wpms / real (length window_wpms);
            wpm_std = np_std window_wpms
        in Inr \<lparr>average_wpm = avg_wpm,
                wpm_standard_deviation = wpm_std,
                pacing_consistency = (if avg_wpm > 0 then max 0 (1 - wpm_std / avg_wpm) else 0),
                wpm_timeline = window_wpms\<rparr>)"

subsection \<open>Clarity\<close>

definition calculate_clarity_score :: "real \<Rightarrow> real \<Rightarrow> real" where
  "calculate_clarity_score filler_percentage words_per_minute =
     (let ideal_wpm = 155;
          wpm_score = max 0 (1 - \<bar>words_per_minute - ideal_wpm\<bar> / 100);
          filler_score = max 0 (1 - filler_percentage / 20);
          clarity_score = wpm_score * (6 / 10) + filler_score * (4 / 10)
      in min 1 (max 0 clarity_score))"

subsection \<open>Filler details\<close>

record filler_detail =
  fd_word :: string
  fd_timestamp :: real
  fd_duration :: real

definition get_filler_word_details_with ::
  "string list \<Rightarrow> word_timestamp list \<Rightarrow> filler_detail list" where
  "get_filler_word_details_with fillers word_timestamps =
     map (\<lambda>word_data. \<lparr>fd_word = word word_data,
                        fd_timestamp = start_time word_data,
                        fd_duration = duration word_data\<rparr>)
       (filter (\<lambda>word_data. word word_data \<in> set fillers) word_timestamps)"

subsection \<open>The recognition loop and the metrics\<close>

text \<open>The filler list is the module constant \<open>FILLER_WORDS\<close>; the functions below take it
  as a parameter \<open>fillers\<close>, and the entry point \<open>analyze_speech\<close> instantiates it with
  the constant; the results below are about \<open>analyze_speech\<close>.\<close>

text \<open>The inner loop \<^verbatim>\<open>for word_info in alternative.words\<close>; the state is
  \<^verbatim>\<open>(word_timestamps, total_words, filler_word_count)\<close>.\<close>

fun words_loop ::
  "string list \<Rightarrow> word_info list \<Rightarrow> word_timestamp list \<times> nat \<times> nat
     \<Rightarrow> word_timestamp list \<times> nat \<times> nat" where
  "words_loop fillers [] st = st"
| "words_loop fillers (wi # wis) (wts, total_words, filler_word_count) =
     (let w = strip ''.,!?'' (lower (wi_word wi));
          s = wi_start_time wi;
          e = wi_end_time wi
      in words_loop fillers wis
           (wts @ [\<lparr>word = w, start_time = s, end_time = e, duration = e - s\<rparr>],
            total_words + 1,
            if w \<in> set fillers then filler_word_count + 1 else filler_word_count))"

text \<open>The outer loop \<^verbatim>\<open>for result in response.results\<close>; \<^verbatim>\<open>result.alternatives[0]\<close>
  raises \<^verbatim>\<open>IndexError\<close> on a result without alternatives.\<close>

fun results_loop ::
  "string list \<Rightarrow> recognition_result list
     \<Rightarrow> string list \<times> word_timestamp list \<times> nat \<times> nat
     \<Rightarrow> error + (string list \<times> word_timestamp list \<times> nat \<times> nat)" where
  "results_loop fillers [] st = Inr st"
| "results_loop fillers (r # rs) (transcript_parts, st) =
     (case alternatives r of
        [] \<Rightarrow> Inl IndexError
      | a # _ \<Rightarrow>
          results_loop fillers rs
            (transcript_parts @ [alt_transcript a], words_loop fillers (alt_words a) st))"

record speech_metrics =
  transcript :: string
  total_words :: nat
  total_duration_seconds :: real
  words_per_minute :: real
  filler_count :: nat
  filler_percentage :: real
  filler_details :: "filler_detail list"
  pacing_analysis :: "string + pacing"
  clarity_score :: real
  word_timestamps :: "word_timestamp list"

definition analyze_speech_with ::
  "string list \<Rightarrow> error + recognition_result list \<Rightarrow> error + speech_metrics" where
  "analyze_speech_with fillers recognition =
     (case recognition of
        Inl e \<Rightarrow> Inl e
      | Inr results \<Rightarrow>
          (case results_loop fillers results ([], [], 0, 0) of
             Inl e \<Rightarrow> Inl e
           | Inr (transcript_parts, wts, n_words, n_fillers) \<Rightarrow>
               let full_transcript = join '' '' transcript_parts;
                   total_duration =
                     (if wts \<noteq> [] then end_time (last wts) - start_time (hd wts) else 0);
                   wpm = (if total_duration > 0 then (real n_words / total_duration) * 60 else 0);
                   percentage = (if n_words > 0 then (real n_fillers / real n_words) * 100 else 0);
                   pacing = analyze_pacing_variations wts
               in Inr \<lparr>transcript = full_transcript,
                       total_words = n_words,
                       total_duration_seconds = total_duration,
                       words_per_minute = wpm,
                       filler_count = n_fillers,
                       filler_percentage = percentage,
                       filler_details = get_filler_word_details_with fillers wts,
                       pacing_analysis = pacing,
                       clarity_score = calculate_clarity_score percentage wpm,
                       word_timestamps = wts\<rparr>))"

definition analyze_speech :: "error + recognition_result list \<Rightarrow> error + speech_metrics" where
  "analyze_speech recognition = analyze_speech_with FILLER_WORDS recognition"

subsection \<open>The sibling filler counter\<close>

text \<open>
  \<^verbatim>\<open>count_filler_words\<close> of \<^verbatim>\<open>cloud-function-analysis/main.py\<close> counts, for each filler,
  \<^verbatim>\<open>len(re.findall(r'\b' + re.escape(filler) + r'\b', transcript))\<close> on the lowercased
  transcript: the non-overlapping occurrences, scanned from the left, that begin and end
  at a word boundary. It is the boundary-anchored counting the specification describes,
  and is embedded here to be compared with the token test of \<open>words_loop\<close>.
  Word characters are the ASCII letters, the digits and the underscore.
\<close>

definition is_word_char :: "char \<Rightarrow> bool" where
  "is_word_char c \<longleftrightarrow>
     c \<in> set ''abcdefghijklmnopqrstuvwxyzABCDEFGHIJKLMNOPQRSTUVWXYZ0123456789_''"

text \<open>\<^verbatim>\<open>\b\<close> between two positions; \<open>None\<close> is the start or the end of the text.\<close>

definition word_boundary :: "char option \<Rightarrow> char option \<Rightarrow> bool" where
  "word_boundary before after \<longleftrightarrow>
     (case before of None \<Rightarrow> False | Some c \<Rightarrow> is_word_char c) \<noteq>
     (case after of None \<Rightarrow> False | Some c \<Rightarrow> is_word_char c)"

definition matches_here :: "string \<Rightarrow> char option \<Rightarrow> string \<Rightarrow> bool" where
  "matches_here pat before text \<longleftrightarrow>
     pat \<noteq> [] \<and> take (length pat) text = pat \<and>
     word_boundary before (Some (hd pat)) \<and>
     word_boundary (Some (last pat))
       (case drop (length pat) text of [] \<Rightarrow> None | c # _ \<Rightarrow> Some c)"

text \<open>\<open>findall_count pat skip before text\<close>: the number of matches found from here on;
  \<open>skip\<close> is the number of characters of the current match still to be passed over.\<close>

fun findall_count :: "string \<Rightarrow> nat \<Rightarrow> char option \<Rightarrow> string \<Rightarrow> nat" where
  "findall_count pat skip before [] = 0"
| "findall_count pat skip before (c # cs) =
     (if skip > 0 then findall_count pat (skip - 1) (Some c) cs
      else if matches_here pat before (c # cs)
        then 1 + findall_count pat (length pat - 1) (Some c) cs
      else findall_count pat 0 (Some c) cs)"

definition count_filler_words :: "string \<Rightarrow> string list \<Rightarrow> nat" where
  "count_filler_words transcript_text filler_words =
     sum_list (map (\<lambda>filler. findall_count filler 0 None transcript_text) filler_words)"

section \<open>Frame sampling\<close>

record 'img video =
  fps :: real
  decoded_frames :: "'img list"

record 'img frame_data =
  timestamp :: real
  image :: 'img
  frame_number :: nat

text \<open>\<^verbatim>\<open>int(x)\<close> on a float: truncation towards zero.\<close>

definition py_int :: "real \<Rightarrow> int" where
  "py_int x = (if x \<ge> 0 then \<lfloor>x\<rfloor> else \<lceil>x\<rceil>)"

text \<open>
  The \<^verbatim>\<open>while True\<close> loop: \<^verbatim>\<open>cap.read()\<close> hands out the decoded frames one by one and
  reports the end of the source, so the loop is a recursion over the list of frames still
  to be decoded. \<^verbatim>\<open>frame_count % frame_interval\<close> raises \<^verbatim>\<open>ZeroDivisionError\<close> when the
  interval is \<open>0\<close>. The division \<^verbatim>\<open>frame_count / fps\<close> is reached only with
  \<open>frame_interval \<noteq> 0\<close>, hence with \<open>fps \<noteq> 0\<close>.
\<close>

fun read_loop ::
  "int \<Rightarrow> real \<Rightarrow> 'img list \<Rightarrow> nat \<Rightarrow> 'img frame_data list \<Rightarrow> error + 'img frame_data list" where
  "read_loop frame_interval rate [] frame_count frames = Inr frames"
| "read_loop frame_interval rate (frame # rest) frame_count frames =
     (if frame_interval = 0 then Inl ZeroDivisionError
      else read_loop frame_interval rate rest (frame_count + 1)
             (if int frame_count mod frame_interval = 0
              then frames @ [\<lparr>timestamp = real frame_count / rate,
                               image = frame,
                               frame_number = frame_count\<rparr>]
              else frames))"

definition frame_interval_of :: "real \<Rightarrow> real \<Rightarrow> int" where
  "frame_interval_of rate interval_seconds = py_int (rate * interval_seconds)"

definition extract_video_frames :: "'img video \<Rightarrow> real \<Rightarrow> error + 'img frame_data list" where
  "extract_video_frames v interval_seconds =
     read_loop (frame_interval_of (fps v) interval_seconds) (fps v) (decoded_frames v) 0 []"

text \<open>The stride as the specification words it: \<open>round (frame_rate \<times> interval)\<close>, the
  nearest integer. It is evaluated below on products that are not halfway between two
  integers, where every rounding rule agrees.\<close>

definition spec_frame_stride :: "real \<Rightarrow> real \<Rightarrow> int" where
  "spec_frame_stride rate interval_seconds = round (rate * interval_seconds)"

section \<open>Facial expression analysis\<close>

text \<open>A face annotation of the vision service, with the fields the service reads.\<close>

record face =
  joy_likelihood :: int
  sorrow_likelihood :: int
  anger_likelihood :: int
  surprise_likelihood :: int
  under_exposed_likelihood :: int
  blurred_likelihood :: int
  headwear_likelihood :: int
  detection_confidence :: real
  roll_angle :: real
  pan_angle :: real
  tilt_angle :: real

definition likelihood_to_score :: "int \<Rightarrow> real" where
  "likelihood_to_score likelihood =
     (case map_of [(0, 0), (1, 1 / 10), (2, 3 / 10), (3, 5 / 10), (4, 7 / 10), (5, 9 / 10)]
             likelihood of
        Some s \<Rightarrow> s
      | None \<Rightarrow> 0)"

text \<open>The dictionary \<^verbatim>\<open>emotions\<close> of a timeline entry always has these seven keys.\<close>

record emotions =
  joy :: real
  sorrow :: real
  anger :: real
  surprise :: real
  under_exposed :: real
  blurred :: real
  headwear :: real

record emotion_frame =
  ef_timestamp :: real
  ef_emotions :: emotions
  ef_detection_confidence :: real

record emotion_stat =
  stat_average :: real
  stat_max :: real
  stat_min :: real
  stat_std :: real

text \<open>\<^verbatim>\<open>max(values)\<close> and \<^verbatim>\<open>min(values)\<close>; both are called on non-empty lists only (the
  timeline is checked before), so the \<^verbatim>\<open>ValueError\<close> on an empty list is not a branch.\<close>

fun py_max :: "real list \<Rightarrow> real" where
  "py_max (x # xs) = fold max xs x"

fun py_min :: "real list \<Rightarrow> real" where
  "py_min (x # xs) = fold min xs x"

text \<open>\<^verbatim>\<open>emotion_keys\<close>: each key with the lookup \<^verbatim>\<open>frame['emotions'][key]\<close>.\<close>

definition emotion_keys :: "(string \<times> (emotions \<Rightarrow> real)) list" where
  "emotion_keys = [(''joy'', joy), (''sorrow'', sorrow), (''anger'', anger),
     (''surprise'', surprise)]"

definition calculate_emotion_statistics ::
  "emotion_frame list \<Rightarrow> (string \<times> emotion_stat) list" where
  "calculate_emotion_statistics emotion_timeline =
     (if emotion_timeline = [] then []
      else map (\<lambda>(emotion, lookup).
                  let values = map (\<lambda>frame. lookup (ef_emotions frame)) emotion_timeline
                  in (emotion, \<lparr>stat_average = sum_list values / real (length values),
                                 stat_max = py_max values,
                                 stat_min = py_min values,
                                 stat_std = np_std values\<rparr>))
             emotion_keys)"

record facial_metrics =
  emotion_timeline :: "emotion_frame list"
  emotion_statistics :: "(string \<times> emotion_stat) list"
  total_frames_analyzed :: nat
  average_detection_confidence :: real

text \<open>The loop over the sampled frames; \<open>detect\<close> is the face detection service, which
  may raise, and only the first face of a frame is used.\<close>

fun emotion_loop ::
  "('img \<Rightarrow> error + face list) \<Rightarrow> 'img frame_data list \<Rightarrow> emotion_frame list
     \<Rightarrow> error + emotion_frame list" where
  "emotion_loop detect [] timeline = Inr timeline"
| "emotion_loop detect (fd # fds) timeline =
     (case detect (image fd) of
        Inl e \<Rightarrow> Inl e
      | Inr [] \<Rightarrow> emotion_loop detect fds timeline
      | Inr (f # _) \<Rightarrow>
          emotion_loop detect fds
            (timeline @
              [\<lparr>ef_timestamp = timestamp fd,
                ef_emotions =
                  \<lparr>joy = likelihood_to_score (joy_likelihood f),
                   sorrow = likelihood_to_score (sorrow_likelihood f),
                   anger = likelihood_to_score (anger_likelihood f),
                   surprise = likelihood_to_score (surprise_likelihood f),
                   under_exposed = likelihood_to_score (under_exposed_likelihood f),
                   blurred = likelihood_to_score (blurred_likelihood f),
                   headwear = likelihood_to_score (headwear_likelihood f)\<rparr>,
                ef_detection_confidence = detection_confidence f\<rparr>]))"

text \<open>The dictionary returned once the timeline is built.\<close>

definition facial_report :: "emotion_frame list \<Rightarrow> facial_metrics" where
  "facial_report timeline =
     \<lparr>emotion_timeline = timeline,
      emotion_statistics = calculate_emotion_statistics timeline,
      total_frames_analyzed = length timeline,
      average_detection_confidence =
        (if timeline \<noteq> []
         then sum_list (map ef_detection_confidence timeline) / real (length timeline)
         else 0)\<rparr>"

text \<open>\<open>download\<close> is the outcome of fetching and opening the video.\<close>

definition analyze_facial_expressions ::
  "('img \<Rightarrow> error + face list) \<Rightarrow> error + 'img video \<Rightarrow> error + facial_metrics" where
  "analyze_facial_expressions detect download =
     (case download of
        Inl e \<Rightarrow> Inl e
      | Inr v \<Rightarrow>
          (case extract_video_frames v 1 of
             Inl e \<Rightarrow> Inl e
           | Inr frames_data \<Rightarrow>
               (case emotion_loop detect frames_data [] of
                  Inl e \<Rightarrow> Inl e
                | Inr timeline \<Rightarrow> Inr (facial_report timeline))))"

section \<open>Confidence analysis\<close>

definition estimate_eye_contact :: "real \<Rightarrow> real \<Rightarrow> real \<Rightarrow> real" where
  "estimate_eye_contact pan tilt roll =
     (let ideal_pan = 0; ideal_tilt = 0; ideal_roll = 0;
          pan_deviation = \<bar>pan - ideal_pan\<bar>;
          tilt_deviation = \<bar>tilt - ideal_tilt\<bar>;
          roll_deviation = \<bar>roll - ideal_roll\<bar>;
          weighted_deviation =
            pan_deviation * (6 / 10) + tilt_deviation * (3 / 10) + roll_deviation * (1 / 10);
          max_acceptable_deviation = 30
      in max 0 (1 - weighted_deviation / max_acceptable_deviation))"

text \<open>The weighted deviation by itself, as the specification names it.\<close>

definition weighted_deviation :: "real \<Rightarrow> real \<Rightarrow> real \<Rightarrow> real" where
  "weighted_deviation pan tilt roll = 6 / 10 * \<bar>pan\<bar> + 3 / 10 * \<bar>tilt\<bar> + 1 / 10 * \<bar>roll\<bar>"

text \<open>The dictionary of the confidence branch; only its keys matter to the aggregator.\<close>

record confidence_metrics =
  average_eye_contact_score :: real
  eye_contact_consistency :: real
  head_stability_score :: real
  confidence_score :: real

section \<open>Score aggregation\<close>

definition score_to_grade :: "real \<Rightarrow> string" where
  "score_to_grade score =
     (if score \<ge> 9 / 10 then ''A+''
      else if score \<ge> 85 / 100 then ''A''
      else if score \<ge> 8 / 10 then ''A-''
      else if score \<ge> 75 / 100 then ''B+''
      else if score \<ge> 7 / 10 then ''B''
      else if score \<ge> 65 / 100 then ''B-''
      else if score \<ge> 6 / 10 then ''C+''
      else if score \<ge> 55 / 100 then ''C''
      else if score \<ge> 5 / 10 then ''C-''
      else if score \<ge> 45 / 100 then ''D+''
      else if score \<ge> 4 / 10 then ''D''
      else ''F'')"

record overall =
  overall_score :: real
  component_scores :: "(string \<times> real) list"
  grade :: string

text \<open>
  The dictionary \<^verbatim>\<open>scores\<close> is an association list in insertion order. A key test such
  as \<^verbatim>\<open>'clarity_score' in speech_analysis\<close> holds exactly for the metrics dictionary, not
  for \<^verbatim>\<open>{'error': ...}\<close>.
\<close>

definition calculate_overall_score ::
  "error + speech_metrics \<Rightarrow> error + facial_metrics \<Rightarrow> error + confidence_metrics \<Rightarrow> overall" where
  "calculate_overall_score speech_analysis facial_analysis confidence_analysis =
     (let scores0 = [];
          scores1 = (case speech_analysis of
                       Inr s \<Rightarrow> scores0 @ [(''speech_clarity'', clarity_score s)]
                     | Inl _ \<Rightarrow> scores0);
          scores2 = (case facial_analysis of
                       Inr f \<Rightarrow>
                         (case map_of (emotion_statistics f) ''joy'' of
                            Some st \<Rightarrow> scores1 @ [(''positivity'', stat_average st)]
                          | None \<Rightarrow> scores1)
                     | Inl _ \<Rightarrow> scores1);
          scores = (case confidence_analysis of
                      Inr c \<Rightarrow> scores2 @ [(''confidence'', confidence_score c)]
                    | Inl _ \<Rightarrow> scores2)
      in if scores \<noteq> []
         then let score = sum_list (map snd scores) / real (length scores)
              in \<lparr>overall_score = score,
                  component_scores = scores,
                  grade = score_to_grade score\<rparr>
         else \<lparr>overall_score = 0, component_scores = [], grade = ''F''\<rparr>)"

text \<open>The component scores the specification speaks of: each is present or absent.\<close>

definition speech_component :: "error + speech_metrics \<Rightarrow> real option" where
  "speech_component speech_analysis =
     (case speech_analysis of Inl _ \<Rightarrow> None | Inr s \<Rightarrow> Some (clarity_score s))"

definition facial_component :: "error + facial_metrics \<Rightarrow> real option" where
  "facial_component facial_analysis =
     (case facial_analysis of
        Inl _ \<Rightarrow> None
      | Inr f \<Rightarrow> map_option stat_average (map_of (emotion_statistics f) ''joy''))"

definition confidence_component :: "error + confidence_metrics \<Rightarrow> real option" where
  "confidence_component confidence_analysis =
     (case confidence_analysis of Inl _ \<Rightarrow> None | Inr c \<Rightarrow> Some (confidence_score c))"

definition present_components ::
  "error + speech_metrics \<Rightarrow> error + facial_metrics \<Rightarrow> error + confidence_metrics \<Rightarrow> real list" where
  "present_components sa fa ca =
     List.map_filter id [speech_component sa, facial_component fa, confidence_component ca]"

section \<open>Reference notions and sample inputs\<close>

text \<open>The entry of \<^verbatim>\<open>word_timestamps\<close> that the inner loop appends for one recognised word.\<close>

definition timestamp_of :: "word_info \<Rightarrow> word_timestamp" where
  "timestamp_of wi =
     \<lparr>word = strip ''.,!?'' (lower (wi_word wi)),
      start_time = wi_start_time wi,
      end_time = wi_end_time wi,
      duration = wi_end_time wi - wi_start_time wi\<rparr>"

text \<open>The words the loops visit: those of the first alternative of each result, in order.\<close>

definition recognised_words :: "recognition_result list \<Rightarrow> word_info list" where
  "recognised_words results = concat (map (\<lambda>r. alt_words (hd (alternatives r))) results)"

text \<open>A sample utterance: the given words, one per second, back to back.\<close>

definition spoken :: "string list \<Rightarrow> word_info list" where
  "spoken ws =
     map (\<lambda>(i, w). \<lparr>wi_word = w, wi_start_time = real i, wi_end_time = real i + 1\<rparr>)
       (enumerate 0 ws)"

text \<open>A successful recognition with one result and one alternative.\<close>

definition single_result :: "string \<Rightarrow> word_info list \<Rightarrow> error + recognition_result list" where
  "single_result text ws = Inr [\<lparr>alternatives = [\<lparr>alt_transcript = text, alt_words = ws\<rparr>]\<rparr>]"

text \<open>A sample of \<open>n\<close> word timings at a steady rate of one word per second.\<close>

definition steady_words :: "nat \<Rightarrow> word_timestamp list" where
  "steady_words n =
     map (\<lambda>i. \<lparr>word = ''word'', start_time = real i, end_time = real i + 1, duration = 1\<rparr>)
       [0 ..< n]"

text \<open>The entry the frame loop appends for the decoded frame with index \<open>i\<close>.\<close>

definition sampled_frame :: "real \<Rightarrow> 'img list \<Rightarrow> nat \<Rightarrow> 'img frame_data" where
  "sampled_frame rate frames i =
     \<lparr>timestamp = real i / rate, image = frames ! i, frame_number = i\<rparr>"

text \<open>Mean, greatest value, least value and population standard deviation of a sample.\<close>

definition summary_of :: "real list \<Rightarrow> emotion_stat" where
  "summary_of values =
     \<lparr>stat_average = mean values, stat_max = Max (set values), stat_min = Min (set values),
      stat_std = np_std values\<rparr>"

text \<open>A sample timeline entry.\<close>

definition sample_frame :: emotion_frame where
  "sample_frame =
     \<lparr>ef_timestamp = 0,
      ef_emotions = \<lparr>joy = 9 / 10, sorrow = 1 / 10, anger = 1 / 10, surprise = 3 / 10,
                     under_exposed = 1 / 10, blurred = 1 / 10, headwear = 1 / 10\<rparr>,
      ef_detection_confidence = 9 / 10\<rparr>"

section \<open>Eye contact\<close>

text \<open>
  C6. For every triple of head-pose angles the eye contact score is
  \<open>max 0 (1 - weighted_deviation / 30)\<close> with
  \<open>weighted_deviation = 0.6 |pan| + 0.3 |tilt| + 0.1 |roll|\<close>; the score is \<open>1\<close> exactly
  when all three angles are \<open>0\<close>, and it is \<open>0\<close> whenever the weighted deviation is at
  least \<open>30\<close>.
\<close>

theorem C6_eye_contact_score:
  "estimate_eye_contact pan tilt roll = max 0 (1 - weighted_deviation pan tilt roll / 30) \<and>
   (estimate_eye_contact pan tilt roll = 1 \<longleftrightarrow> pan = 0 \<and> tilt = 0 \<and> roll = 0) \<and>
   (weighted_deviation pan tilt roll \<ge> 30 \<longrightarrow> estimate_eye_contact pan tilt roll = 0)"
proof -
  have formula:
    "estimate_eye_contact pan tilt roll = max 0 (1 - weighted_deviation pan tilt roll / 30)"
    by (simp add: estimate_eye_contact_def weighted_deviation_def Let_def algebra_simps)
  have nonneg: "0 \<le> weighted_deviation pan tilt roll"
    by (simp add: weighted_deviation_def)
  have zero_iff: "weighted_deviation pan tilt roll = 0 \<longleftrightarrow> pan = 0 \<and> tilt = 0 \<and> roll = 0"
    unfolding weighted_deviation_def by (auto simp: abs_if split: if_splits)
  have one: "estimate_eye_contact pan tilt roll = 1 \<longleftrightarrow> pan = 0 \<and> tilt = 0 \<and> roll = 0"
    unfolding formula using nonneg zero_iff by (auto simp: max_def split: if_splits)
  have zero: "weighted_deviation pan tilt roll \<ge> 30 \<longrightarrow> estimate_eye_contact pan tilt roll = 0"
    unfolding formula by (auto simp: max_def)
  from formula one zero show ?thesis by blast
qed

text \<open>The theorem at a head turned by 50 degrees, at a head facing the camera, and at a
  head turned by 10 degrees.\<close>

theorem C6_eye_contact_score_witness:
  "weighted_deviation 50 0 0 \<ge> 30 \<and> estimate_eye_contact 50 0 0 = 0 \<and>
   estimate_eye_contact 0 0 0 = 1 \<and> estimate_eye_contact 10 0 0 = 4 / 5"
  using C6_eye_contact_score [of 50 0 0] C6_eye_contact_score [of 0 0 0]
    C6_eye_contact_score [of 10 0 0]
  by (simp add: weighted_deviation_def)

section \<open>Clarity score\<close>

lemma clarity_unfold:
  "calculate_clarity_score fp wpm =
     min 1 (max 0 (max 0 (1 - \<bar>wpm - 155\<bar> / 100) * (6 / 10) + max 0 (1 - fp / 20) * (4 / 10)))"
  by (simp add: calculate_clarity_score_def Let_def)

lemma clarity_of_silence: "calculate_clarity_score 0 0 = 4 / 10"
  by (simp add: calculate_clarity_score_def Let_def)

text \<open>The source comments the ideal rate as the range 150 to 160, but only 155 scores
  in full: at 150 words per minute and no fillers the clarity is \<open>0.97\<close>.\<close>

lemma clarity_at_150:
  "calculate_clarity_score 0 150 = 97 / 100 \<and> calculate_clarity_score 0 155 = 1"
  by (simp add: calculate_clarity_score_def Let_def)

text \<open>
  C5 as stated fails. At 155 words per minute a filler percentage of 40 scores the same as
  one of 20: the filler score is \<open>0\<close> from 20 percent on, so the clarity score does not
  decrease strictly there. And for the negative percentage \<open>-20\<close> the weighted sum is
  \<open>1.4\<close> while the function returns the clamped value \<open>1\<close>.
\<close>

theorem C5_counterexample:
  "(20::real) < 40 \<and> calculate_clarity_score 40 155 = calculate_clarity_score 20 155 \<and>
   calculate_clarity_score (- 20) 155 = 1 \<and>
   6 / 10 * max 0 (1 - \<bar>155 - 155\<bar> / 100) + 4 / 10 * max 0 (1 - (- 20) / 20) = (14 / 10 :: real)"
  by (simp add: clarity_unfold)

text \<open>
  C5, amended. For all inputs the clarity score lies in \<open>[0, 1]\<close>; for a filler percentage
  that is not negative it equals \<open>0.6 \<times> wpm_score + 0.4 \<times> filler_score\<close> with
  \<open>wpm_score = max 0 (1 - |wpm - 155| / 100)\<close> and
  \<open>filler_score = max 0 (1 - filler_percentage / 20)\<close>; with the rate fixed at 155 the
  score decreases strictly when the filler percentage grows from a value in \<open>[0, 20)\<close>,
  and it stays at \<open>0.6\<close> from 20 percent on.
\<close>

theorem C5_clarity_score:
  "0 \<le> calculate_clarity_score fp wpm \<and> calculate_clarity_score fp wpm \<le> 1 \<and>
   (0 \<le> fp \<longrightarrow>
      calculate_clarity_score fp wpm =
        6 / 10 * max 0 (1 - \<bar>wpm - 155\<bar> / 100) + 4 / 10 * max 0 (1 - fp / 20)) \<and>
   (0 \<le> fp \<and> fp < 20 \<and> fp < fp' \<longrightarrow>
      calculate_clarity_score fp' 155 < calculate_clarity_score fp 155) \<and>
   (20 \<le> fp \<longrightarrow> calculate_clarity_score fp 155 = 6 / 10)"
proof -
  have range: "0 \<le> calculate_clarity_score fp wpm \<and> calculate_clarity_score fp wpm \<le> 1"
    unfolding clarity_unfold by simp
  have formula: "0 \<le> fp \<longrightarrow>
      calculate_clarity_score fp wpm =
        6 / 10 * max 0 (1 - \<bar>wpm - 155\<bar> / 100) + 4 / 10 * max 0 (1 - fp / 20)"
  proof
    assume fp: "0 \<le> fp"
    define w where "w = max 0 (1 - \<bar>wpm - 155\<bar> / 100)"
    define f where "f = max 0 (1 - fp / 20)"
    have w: "0 \<le> w" "w \<le> 1" by (simp_all add: w_def)
    have f: "0 \<le> f" "f \<le> 1" using fp by (simp_all add: f_def)
    have "calculate_clarity_score fp wpm = min 1 (max 0 (w * (6 / 10) + f * (4 / 10)))"
      by (simp add: clarity_unfold w_def f_def)
    also have "\<dots> = 6 / 10 * w + 4 / 10 * f"
      using w f by (simp add: min_def max_def)
    finally show "calculate_clarity_score fp wpm =
        6 / 10 * max 0 (1 - \<bar>wpm - 155\<bar> / 100) + 4 / 10 * max 0 (1 - fp / 20)"
      by (simp add: w_def f_def)
  qed
  have strict: "0 \<le> fp \<and> fp < 20 \<and> fp < fp' \<longrightarrow>
      calculate_clarity_score fp' 155 < calculate_clarity_score fp 155"
    unfolding clarity_unfold by (auto simp: max_def min_def field_simps split: if_splits)
  have flat: "20 \<le> fp \<longrightarrow> calculate_clarity_score fp 155 = 6 / 10"
    unfolding clarity_unfold by (auto simp: max_def min_def split: if_splits)
  from range formula strict flat show ?thesis by blast
qed

text \<open>The amended theorem at 5 against 10 percent of fillers, and at 40 percent.\<close>

theorem C5_clarity_score_witness:
  "(0::real) \<le> 5 \<and> (5::real) < 20 \<and> (5::real) < 10 \<and>
   calculate_clarity_score 10 155 < calculate_clarity_score 5 155 \<and>
   calculate_clarity_score 5 155 = 9 / 10 \<and>
   (20::real) \<le> 40 \<and> calculate_clarity_score 40 155 = 6 / 10"
  using C5_clarity_score [of 5 155 10] C5_clarity_score [of 40 155 50]
  by simp

section \<open>The recognition loops\<close>

lemma words_loop_eq:
  "words_loop fw wis (wts, n, k) =
     (wts @ map timestamp_of wis, n + length wis,
      k + length (filter (\<lambda>w. word w \<in> set fw) (map timestamp_of wis)))"
  by (induction wis arbitrary: wts n k) (simp_all add: timestamp_of_def Let_def)

lemma results_loop_eq:
  "results_loop fw rs (tp, wts, n, k) =
     (if \<forall>r \<in> set rs. alternatives r \<noteq> []
      then Inr (tp @ map (\<lambda>r. alt_transcript (hd (alternatives r))) rs,
                wts @ map timestamp_of (recognised_words rs),
                n + length (recognised_words rs),
                k + length (filter (\<lambda>w. word w \<in> set fw) (map timestamp_of (recognised_words rs))))
      else Inl IndexError)"
proof (induction rs arbitrary: tp wts n k)
  case Nil
  then show ?case by (simp add: recognised_words_def)
next
  case (Cons r rs)
  show ?case
  proof (cases "alternatives r")
    case Nil
    then show ?thesis by simp
  next
    case (Cons a as)
    have rw: "recognised_words (r # rs) = alt_words a @ recognised_words rs"
      using Cons by (simp add: recognised_words_def)
    show ?thesis
      using Cons Cons.IH by (simp add: words_loop_eq rw)
  qed
qed

text \<open>The speech branch succeeds exactly when every result has an alternative, and then
  every metric is a function of the word timings.\<close>

lemma analyze_speech_with_eq:
  assumes "\<forall>r \<in> set results. alternatives r \<noteq> []"
  shows "\<exists>m. analyze_speech_with fw (Inr results) = Inr m \<and>
     transcript m = join '' '' (map (\<lambda>r. alt_transcript (hd (alternatives r))) results) \<and>
     word_timestamps m = map timestamp_of (recognised_words results) \<and>
     total_words m = length (recognised_words results) \<and>
     filler_count m = length (filter (\<lambda>w. word w \<in> set fw) (word_timestamps m)) \<and>
     total_duration_seconds m =
       (if word_timestamps m \<noteq> []
        then end_time (last (word_timestamps m)) - start_time (hd (word_timestamps m)) else 0) \<and>
     words_per_minute m =
       (if total_duration_seconds m > 0
        then (real (total_words m) / total_duration_seconds m) * 60 else 0) \<and>
     filler_percentage m =
       (if total_words m > 0 then (real (filler_count m) / real (total_words m)) * 100 else 0) \<and>
     pacing_analysis m = analyze_pacing_variations (word_timestamps m) \<and>
     clarity_score m = calculate_clarity_score (filler_percentage m) (words_per_minute m)"
  using assms by (simp add: analyze_speech_with_def results_loop_eq Let_def)

lemma analyze_speech_with_no_alternative:
  assumes "\<not> (\<forall>r \<in> set results. alternatives r \<noteq> [])"
  shows "analyze_speech_with fw (Inr results) = Inl IndexError"
proof -
  have "results_loop fw results ([], [], 0, 0) = Inl IndexError"
    using assms by (subst results_loop_eq) (simp only: if_False)
  then show ?thesis by (simp add: analyze_speech_with_def)
qed

lemma analyze_speech_with_service_error:
  "analyze_speech_with fw (Inl e) = Inl e"
  by (simp add: analyze_speech_with_def)

lemma single_result_eq:
  "\<exists>m. analyze_speech_with fw (single_result text ws) = Inr m \<and>
     transcript m = text \<and>
     word_timestamps m = map timestamp_of ws \<and>
     total_words m = length ws \<and>
     filler_count m = length (filter (\<lambda>w. word w \<in> set fw) (map timestamp_of ws)) \<and>
     filler_percentage m =
       (if total_words m > 0 then (real (filler_count m) / real (total_words m)) * 100 else 0)"
  using analyze_speech_with_eq [of "[\<lparr>alternatives = [\<lparr>alt_transcript = text, alt_words = ws\<rparr>]\<rparr>]" fw]
  by (auto simp: single_result_def recognised_words_def)

lemma word_of_timestamp: "word (timestamp_of wi) = strip ''.,!?'' (lower (wi_word wi))"
  by (simp add: timestamp_of_def)

text \<open>The filler count is the number of recognised tokens whose normal form (lowercase,
  without leading and trailing \<^verbatim>\<open>.,!?\<close>) is an entry of the filler list.\<close>

lemma filler_count_tokens:
  "length (filter (\<lambda>w. word w \<in> set fw) (map timestamp_of ws)) =
   length (filter (\<lambda>t. strip ''.,!?'' (lower t) \<in> set fw) (map wi_word ws))"
  by (induction ws) (simp_all add: word_of_timestamp)

section \<open>Duration and rate of short utterances\<close>

text \<open>
  C2 as stated fails for a sequence of one element. A single word recognised from second
  \<open>0\<close> to second \<open>0.5\<close> gives \<open>total_duration = 0.5\<close> and \<open>words_per_minute = 120\<close>: the
  source takes \<open>0\<close> only when \<^verbatim>\<open>word_timestamps\<close> is empty.
\<close>

theorem C2_counterexample:
  "length (recognised_words [\<lparr>alternatives = [\<lparr>alt_transcript = ''hello'',
      alt_words = [\<lparr>wi_word = ''hello'', wi_start_time = 0, wi_end_time = 1 / 2\<rparr>]\<rparr>]\<rparr>]) = 1 \<and>
   map_sum id total_duration_seconds
     (analyze_speech (single_result ''hello''
        [\<lparr>wi_word = ''hello'', wi_start_time = 0, wi_end_time = 1 / 2\<rparr>])) = Inr (1 / 2) \<and>
   map_sum id words_per_minute
     (analyze_speech (single_result ''hello''
        [\<lparr>wi_word = ''hello'', wi_start_time = 0, wi_end_time = 1 / 2\<rparr>])) = Inr 120"
  by (simp add: analyze_speech_def analyze_speech_with_def single_result_def
      recognised_words_def Let_def)

text \<open>
  C2, amended. Whenever the recognition answers with well-formed results (each has an
  alternative), the speech analysis returns metrics; for an empty word-timing sequence
  \<open>total_duration = 0\<close> and \<open>words_per_minute = 0\<close>; for a sequence of exactly one word
  \<open>total_duration\<close> is that word's \<open>end_time - start_time\<close> and \<open>words_per_minute\<close> is
  \<open>60 / total_duration\<close> when that duration is positive, else \<open>0\<close>.
\<close>

theorem C2_short_sequences:
  assumes "\<forall>r \<in> set results. alternatives r \<noteq> []"
  shows "\<exists>m. analyze_speech (Inr results) = Inr m \<and>
     word_timestamps m = map timestamp_of (recognised_words results) \<and>
     (recognised_words results = [] \<longrightarrow>
        total_duration_seconds m = 0 \<and> words_per_minute m = 0) \<and>
     (\<forall>wi. recognised_words results = [wi] \<longrightarrow>
        total_duration_seconds m = wi_end_time wi - wi_start_time wi \<and>
        words_per_minute m =
          (if wi_end_time wi - wi_start_time wi > 0
           then 60 / (wi_end_time wi - wi_start_time wi) else 0))"
proof -
  obtain m where m: "analyze_speech (Inr results) = Inr m"
    and wts: "word_timestamps m = map timestamp_of (recognised_words results)"
    and tw: "total_words m = length (recognised_words results)"
    and td: "total_duration_seconds m =
       (if word_timestamps m \<noteq> []
        then end_time (last (word_timestamps m)) - start_time (hd (word_timestamps m)) else 0)"
    and wpm: "words_per_minute m =
       (if total_duration_seconds m > 0
        then (real (total_words m) / total_duration_seconds m) * 60 else 0)"
    using analyze_speech_with_eq [OF assms, of FILLER_WORDS] unfolding analyze_speech_def
    by blast
  have none: "recognised_words results = [] \<longrightarrow>
        total_duration_seconds m = 0 \<and> words_per_minute m = 0"
    using wts td wpm by simp
  have one: "\<forall>wi. recognised_words results = [wi] \<longrightarrow>
        total_duration_seconds m = wi_end_time wi - wi_start_time wi \<and>
        words_per_minute m =
          (if wi_end_time wi - wi_start_time wi > 0
           then 60 / (wi_end_time wi - wi_start_time wi) else 0)"
    using wts td wpm tw by (simp add: timestamp_of_def)
  from m wts none one show ?thesis by blast
qed

text \<open>The amended theorem at a recognition without results and at one with a single
  word.\<close>

theorem C2_short_sequences_witness:
  "recognised_words [] = [] \<and>
   (\<exists>m. analyze_speech (Inr []) = Inr m \<and>
      total_duration_seconds m = 0 \<and> words_per_minute m = 0) \<and>
   recognised_words [\<lparr>alternatives = [\<lparr>alt_transcript = ''hello'',
      alt_words = [\<lparr>wi_word = ''hello'', wi_start_time = 0, wi_end_time = 1 / 2\<rparr>]\<rparr>]\<rparr>] =
     [\<lparr>wi_word = ''hello'', wi_start_time = 0, wi_end_time = 1 / 2\<rparr>] \<and>
   (\<exists>m. analyze_speech (Inr [\<lparr>alternatives = [\<lparr>alt_transcript = ''hello'',
      alt_words = [\<lparr>wi_word = ''hello'', wi_start_time = 0, wi_end_time = 1 / 2\<rparr>]\<rparr>]\<rparr>]) = Inr m \<and>
      total_duration_seconds m = 1 / 2 \<and> words_per_minute m = 120)"
  using C2_short_sequences [of "[]"]
    C2_short_sequences [of "[\<lparr>alternatives = [\<lparr>alt_transcript = ''hello'',
      alt_words = [\<lparr>wi_word = ''hello'', wi_start_time = 0, wi_end_time = 1 / 2\<rparr>]\<rparr>]\<rparr>]"]
  by (auto simp: recognised_words_def)

section \<open>Filler words\<close>

text \<open>
  C9 as stated fails. The transcript \<^verbatim>\<open>um so I think uh I did well\<close> has eight words, not
  seven, and the program's filler list is the fixed \<open>FILLER_WORDS\<close>, which has \<^verbatim>\<open>well\<close>
  besides \<^verbatim>\<open>um\<close>, \<^verbatim>\<open>so\<close> and \<^verbatim>\<open>uh\<close>: the analysis counts 4 fillers among 8 words,
  which is 50 percent and more than 5 points away from 42.9.
\<close>

theorem C9_counterexample:
  "map_sum id total_words
     (analyze_speech
        (single_result ''um so I think uh I did well''
           (spoken [''um'', ''so'', ''I'', ''think'', ''uh'', ''I'', ''did'', ''well'']))) = Inr 8 \<and>
   map_sum id filler_count
     (analyze_speech
        (single_result ''um so I think uh I did well''
           (spoken [''um'', ''so'', ''I'', ''think'', ''uh'', ''I'', ''did'', ''well'']))) = Inr 4 \<and>
   map_sum id filler_percentage
     (analyze_speech
        (single_result ''um so I think uh I did well''
           (spoken [''um'', ''so'', ''I'', ''think'', ''uh'', ''I'', ''did'', ''well'']))) = Inr 50 \<and>
   \<bar>50 - 429 / 10\<bar> > (5 :: real)"
  by (simp add: analyze_speech_def analyze_speech_with_def single_result_def spoken_def
      enumerate_eq_zip Let_def strip_def lower_def lower_char_def FILLER_WORDS_def)

text \<open>
  C9, amended. For the transcript \<^verbatim>\<open>um so I think uh I did well\<close> (8 words, whatever their
  timings) the speech analysis, with the program's fixed filler list (which has \<^verbatim>\<open>um\<close>,
  \<^verbatim>\<open>so\<close>, \<^verbatim>\<open>uh\<close> and \<^verbatim>\<open>well\<close>), yields \<open>total_words = 8\<close>, \<open>filler_count = 4\<close> and
  \<open>filler_percentage = 50\<close>.
\<close>

theorem C9_scenario:
  assumes "map wi_word ws = [''um'', ''so'', ''I'', ''think'', ''uh'', ''I'', ''did'', ''well'']"
  shows "\<exists>m. analyze_speech (single_result ''um so I think uh I did well'' ws) = Inr m \<and>
          total_words m = 8 \<and> filler_count m = 4 \<and> filler_percentage m = 50"
proof -
  obtain m where m: "analyze_speech (single_result ''um so I think uh I did well'' ws) = Inr m"
    and tw: "total_words m = length ws"
    and fc: "filler_count m =
       length (filter (\<lambda>w. word w \<in> set FILLER_WORDS) (map timestamp_of ws))"
    and fp: "filler_percentage m =
       (if total_words m > 0 then (real (filler_count m) / real (total_words m)) * 100 else 0)"
    using single_result_eq [of FILLER_WORDS "''um so I think uh I did well''" ws]
    unfolding analyze_speech_def by blast
  have "length (map wi_word ws) = 8" unfolding assms by simp
  then have tw8: "total_words m = 8" using tw by simp
  have fc4: "filler_count m = 4"
    unfolding fc filler_count_tokens assms
    by (simp add: strip_def lower_def lower_char_def FILLER_WORDS_def)
  have "filler_percentage m = 50" unfolding fp tw8 fc4 by simp
  with m tw8 fc4 show ?thesis by blast
qed

text \<open>The amended theorem at the words spoken one per second.\<close>

theorem C9_scenario_witness:
  "map wi_word (spoken [''um'', ''so'', ''I'', ''think'', ''uh'', ''I'', ''did'', ''well'']) =
     [''um'', ''so'', ''I'', ''think'', ''uh'', ''I'', ''did'', ''well''] \<and>
   (\<exists>m. analyze_speech
            (single_result ''um so I think uh I did well''
              (spoken [''um'', ''so'', ''I'', ''think'', ''uh'', ''I'', ''did'', ''well''])) = Inr m \<and>
          total_words m = 8 \<and> filler_count m = 4 \<and> filler_percentage m = 50)"
proof -
  have h: "map wi_word (spoken [''um'', ''so'', ''I'', ''think'', ''uh'', ''I'', ''did'', ''well'']) =
     [''um'', ''so'', ''I'', ''think'', ''uh'', ''I'', ''did'', ''well'']"
    by (simp add: spoken_def enumerate_eq_zip)
  from h C9_scenario [OF h] show ?thesis by blast
qed

text \<open>Token matching is whole-word and case-insensitive: \<^verbatim>\<open>liked\<close> is not \<^verbatim>\<open>like\<close>, and
  \<^verbatim>\<open>Like,\<close> is. The boundary-anchored counter agrees on the first transcript.\<close>

lemma liked_is_not_like:
  "map_sum id filler_count
     (analyze_speech (single_result ''I liked it'' (spoken [''I'', ''liked'', ''it'']))) = Inr 0 \<and>
   map_sum id filler_count
     (analyze_speech (single_result ''Like, yes'' (spoken [''Like,'', ''yes'']))) = Inr 1 \<and>
   count_filler_words (lower ''I liked it'') FILLER_WORDS = 0"
  by (simp add: analyze_speech_def analyze_speech_with_def single_result_def spoken_def
      enumerate_eq_zip Let_def strip_def lower_def lower_char_def FILLER_WORDS_def
      count_filler_words_def matches_here_def word_boundary_def is_word_char_def)

text \<open>
  C4 fails on the code. \<open>FILLER_WORDS\<close> lists the two-word filler \<^verbatim>\<open>you know\<close>, but the
  loop tests one recognised token at a time against the list, so this entry is never
  counted: for the transcript \<^verbatim>\<open>you know\<close>, recognised as the words \<^verbatim>\<open>you\<close> and
  \<^verbatim>\<open>know\<close>, the analysis reports \<open>filler_count = 0\<close>, while the boundary-anchored count
  over the transcript (the sibling \<^verbatim>\<open>count_filler_words\<close>) is \<open>1\<close>.
\<close>

theorem C4_you_know_not_counted:
  "map_sum id transcript
     (analyze_speech (single_result ''you know'' (spoken [''you'', ''know'']))) = Inr ''you know'' \<and>
   map_sum id total_words
     (analyze_speech (single_result ''you know'' (spoken [''you'', ''know'']))) = Inr 2 \<and>
   map_sum id filler_count
     (analyze_speech (single_result ''you know'' (spoken [''you'', ''know'']))) = Inr 0 \<and>
   ''you know'' \<in> set FILLER_WORDS \<and>
   count_filler_words (lower ''you know'') FILLER_WORDS = 1"
  by (simp add: analyze_speech_def analyze_speech_with_def single_result_def spoken_def
      enumerate_eq_zip Let_def strip_def lower_def lower_char_def FILLER_WORDS_def
      count_filler_words_def matches_here_def word_boundary_def is_word_char_def)

section \<open>Score aggregation\<close>

lemma overall_components:
  "component_scores (calculate_overall_score sa fa ca) =
     (case sa of Inr s \<Rightarrow> [(''speech_clarity'', clarity_score s)] | Inl _ \<Rightarrow> []) @
     (case fa of
        Inr f \<Rightarrow> (case map_of (emotion_statistics f) ''joy'' of
                    Some st \<Rightarrow> [(''positivity'', stat_average st)] | None \<Rightarrow> [])
      | Inl _ \<Rightarrow> []) @
     (case ca of Inr c \<Rightarrow> [(''confidence'', confidence_score c)] | Inl _ \<Rightarrow> [])"
  by (simp add: calculate_overall_score_def Let_def split: sum.splits option.splits)

lemma overall_score_eq:
  "overall_score (calculate_overall_score sa fa ca) =
     (if component_scores (calculate_overall_score sa fa ca) = [] then 0
      else sum_list (map snd (component_scores (calculate_overall_score sa fa ca))) /
           real (length (component_scores (calculate_overall_score sa fa ca))))"
  by (simp add: calculate_overall_score_def Let_def split: sum.splits option.splits)

lemma overall_grade_eq:
  "grade (calculate_overall_score sa fa ca) =
     (if component_scores (calculate_overall_score sa fa ca) = [] then ''F''
      else score_to_grade (overall_score (calculate_overall_score sa fa ca)))"
  by (simp add: calculate_overall_score_def Let_def split: sum.splits option.splits)

text \<open>
  C1. For every invocation of the aggregator the overall score is the arithmetic mean of
  the component scores that are present among speech clarity, average joy and confidence,
  in this order in \<open>component_scores\<close>; a branch that carries an error marker has no
  component (it does not count as zero); when no component is present the result is
  \<open>overall_score = 0\<close>, \<open>grade = F\<close> and an empty \<open>component_scores\<close>, as it is when all
  three branches failed.
\<close>

theorem C1_overall_score:
  "map snd (component_scores (calculate_overall_score sa fa ca)) = present_components sa fa ca \<and>
   overall_score (calculate_overall_score sa fa ca) =
     (if present_components sa fa ca = [] then 0
      else sum_list (present_components sa fa ca) / real (length (present_components sa fa ca))) \<and>
   (present_components sa fa ca = [] \<longrightarrow>
      calculate_overall_score sa fa ca =
        \<lparr>overall_score = 0, component_scores = [], grade = ''F''\<rparr>) \<and>
   present_components (Inl e1) (Inl e2) (Inl e3) = []"
proof -
  have comps: "map snd (component_scores (calculate_overall_score sa fa ca)) =
      present_components sa fa ca"
    by (simp add: overall_components present_components_def List.map_filter_def
        speech_component_def facial_component_def confidence_component_def
        split: sum.splits option.splits)
  have empty_iff: "component_scores (calculate_overall_score sa fa ca) = [] \<longleftrightarrow>
      present_components sa fa ca = []"
    using comps by (metis map_is_Nil_conv)
  have len: "length (component_scores (calculate_overall_score sa fa ca)) =
      length (present_components sa fa ca)"
    using comps by (metis length_map)
  have score: "overall_score (calculate_overall_score sa fa ca) =
     (if present_components sa fa ca = [] then 0
      else sum_list (present_components sa fa ca) / real (length (present_components sa fa ca)))"
    by (simp only: overall_score_eq [of sa fa ca] empty_iff comps len)
  have none: "present_components sa fa ca = [] \<longrightarrow>
      calculate_overall_score sa fa ca =
        \<lparr>overall_score = 0, component_scores = [], grade = ''F''\<rparr>"
  proof
    assume "present_components sa fa ca = []"
    then have e: "component_scores (calculate_overall_score sa fa ca) = []"
      using empty_iff by simp
    have s: "overall_score (calculate_overall_score sa fa ca) = 0"
      using overall_score_eq [of sa fa ca] e by simp
    have g: "grade (calculate_overall_score sa fa ca) = ''F''"
      using overall_grade_eq [of sa fa ca] e by simp
    show "calculate_overall_score sa fa ca =
        \<lparr>overall_score = 0, component_scores = [], grade = ''F''\<rparr>"
      by (rule overall.equality) (simp_all add: e s g)
  qed
  have errs: "present_components (Inl e1) (Inl e2) (Inl e3) = []"
    by (simp add: present_components_def List.map_filter_def
        speech_component_def facial_component_def confidence_component_def)
  from comps score none errs show ?thesis by blast
qed

text \<open>The theorem at three failed branches.\<close>

theorem C1_overall_score_witness:
  "present_components (Inl IndexError) (Inl IndexError) (Inl IndexError) = [] \<and>
   calculate_overall_score (Inl IndexError) (Inl IndexError) (Inl IndexError) =
     \<lparr>overall_score = 0, component_scores = [], grade = ''F''\<rparr>"
  using C1_overall_score [of "Inl IndexError" "Inl IndexError" "Inl IndexError"
      IndexError IndexError IndexError]
  by simp

text \<open>The aggregator when only the confidence branch succeeded, with a score of 0.8.\<close>

lemma only_confidence:
  "calculate_overall_score (Inl e1) (Inl e2)
     (Inr \<lparr>average_eye_contact_score = a, eye_contact_consistency = b,
           head_stability_score = c, confidence_score = 8 / 10\<rparr>) =
     \<lparr>overall_score = 8 / 10, component_scores = [(''confidence'', 8 / 10)], grade = ''A-''\<rparr>"
  by (simp add: calculate_overall_score_def Let_def score_to_grade_def)

section \<open>Recognition without words\<close>

text \<open>
  C10. When the recognition returns no words at all (every result is well formed and its
  first alternative has no words; no result at all is one such answer), the speech
  branch returns metrics and no error marker, with \<open>total_words = 0\<close>,
  \<open>words_per_minute = 0\<close>, filler count and percentage \<open>0\<close> and \<open>clarity_score = 0.4\<close>;
  the aggregator then takes \<open>0.4\<close> as the speech component, whatever the other branches
  returned, and with both other branches failed the overall score is \<open>0.4\<close>, grade D.
\<close>

theorem C10_no_words:
  assumes "\<forall>r \<in> set results. alternatives r \<noteq> [] \<and> alt_words (hd (alternatives r)) = []"
  shows "\<exists>m. analyze_speech (Inr results) = Inr m \<and>
     word_timestamps m = [] \<and> total_words m = 0 \<and> words_per_minute m = 0 \<and>
     filler_count m = 0 \<and> filler_percentage m = 0 \<and> clarity_score m = 4 / 10 \<and>
     (\<forall>fa ca. hd (component_scores (calculate_overall_score (Inr m) fa ca)) =
                (''speech_clarity'', 4 / 10)) \<and>
     (\<forall>e1 e2. calculate_overall_score (Inr m) (Inl e1) (Inl e2) =
                \<lparr>overall_score = 4 / 10,
                 component_scores = [(''speech_clarity'', 4 / 10)],
                 grade = ''D''\<rparr>)"
proof -
  have alts: "\<forall>r \<in> set results. alternatives r \<noteq> []" using assms by blast
  have nowords: "recognised_words results = []"
    using assms by (simp add: recognised_words_def)
  obtain m where m: "analyze_speech (Inr results) = Inr m"
    and wts: "word_timestamps m = map timestamp_of (recognised_words results)"
    and tw: "total_words m = length (recognised_words results)"
    and fc: "filler_count m =
       length (filter (\<lambda>w. word w \<in> set FILLER_WORDS) (word_timestamps m))"
    and td: "total_duration_seconds m =
       (if word_timestamps m \<noteq> []
        then end_time (last (word_timestamps m)) - start_time (hd (word_timestamps m)) else 0)"
    and wpm: "words_per_minute m =
       (if total_duration_seconds m > 0
        then (real (total_words m) / total_duration_seconds m) * 60 else 0)"
    and fp: "filler_percentage m =
       (if total_words m > 0 then (real (filler_count m) / real (total_words m)) * 100 else 0)"
    and cl: "clarity_score m = calculate_clarity_score (filler_percentage m) (words_per_minute m)"
    using analyze_speech_with_eq [OF alts, of FILLER_WORDS] unfolding analyze_speech_def
    by blast
  have wts0: "word_timestamps m = []" using wts nowords by simp
  have tw0: "total_words m = 0" using tw nowords by simp
  have fc0: "filler_count m = 0" using fc wts0 by simp
  have wpm0: "words_per_minute m = 0" using wpm td wts0 by simp
  have fp0: "filler_percentage m = 0" using fp tw0 by simp
  have cl04: "clarity_score m = 4 / 10" using cl wpm0 fp0 clarity_of_silence by simp
  have first: "\<forall>fa ca. hd (component_scores (calculate_overall_score (Inr m) fa ca)) =
                (''speech_clarity'', 4 / 10)"
    by (simp add: overall_components cl04)
  have alone: "\<forall>e1 e2. calculate_overall_score (Inr m) (Inl e1) (Inl e2) =
                \<lparr>overall_score = 4 / 10,
                 component_scores = [(''speech_clarity'', 4 / 10)],
                 grade = ''D''\<rparr>"
    by (simp add: calculate_overall_score_def Let_def cl04 score_to_grade_def)
  from m wts0 tw0 wpm0 fc0 fp0 cl04 first alone show ?thesis by blast
qed

text \<open>The theorem at a recognition with one result whose alternative is empty.\<close>

theorem C10_no_words_witness:
  "\<exists>m. analyze_speech (Inr [\<lparr>alternatives = [\<lparr>alt_transcript = [], alt_words = []\<rparr>]\<rparr>]) = Inr m \<and>
      total_words m = 0 \<and> words_per_minute m = 0 \<and>
      filler_count m = 0 \<and> filler_percentage m = 0 \<and> clarity_score m = 4 / 10 \<and>
      overall_score (calculate_overall_score (Inr m) (Inl IndexError) (Inl IndexError)) = 4 / 10"
proof -
  have h: "\<forall>r \<in> set [\<lparr>alternatives = [\<lparr>alt_transcript = [], alt_words = []\<rparr>]\<rparr>].
      alternatives r \<noteq> [] \<and> alt_words (hd (alternatives r)) = []"
    by simp
  from C10_no_words [OF h] obtain m where
    "analyze_speech (Inr [\<lparr>alternatives = [\<lparr>alt_transcript = [], alt_words = []\<rparr>]\<rparr>]) = Inr m"
    "total_words m = 0" "words_per_minute m = 0" "filler_count m = 0" "filler_percentage m = 0"
    "clarity_score m = 4 / 10"
    "\<forall>e1 e2. calculate_overall_score (Inr m) (Inl e1) (Inl e2) =
                \<lparr>overall_score = 4 / 10,
                 component_scores = [(''speech_clarity'', 4 / 10)],
                 grade = ''D''\<rparr>"
    by blast
  then have "analyze_speech (Inr [\<lparr>alternatives = [\<lparr>alt_transcript = [], alt_words = []\<rparr>]\<rparr>]) = Inr m \<and>
      total_words m = 0 \<and> words_per_minute m = 0 \<and>
      filler_count m = 0 \<and> filler_percentage m = 0 \<and> clarity_score m = 4 / 10 \<and>
      overall_score (calculate_overall_score (Inr m) (Inl IndexError) (Inl IndexError)) = 4 / 10"
    by simp
  then show ?thesis by blast
qed

section \<open>Pacing\<close>

lemma window_wpm_nth:
  assumes "i + 10 \<le> length wts"
  shows "window_wpm wts i =
     (let d = end_time (wts ! (i + 9)) - start_time (wts ! i)
      in if d > 0 then 600 / d else 0)"
proof -
  let ?w = "take 10 (drop i wts)"
  have len: "length ?w = 10" using assms by simp
  then have ne: "?w \<noteq> []" by auto
  have h: "hd ?w = wts ! i"
    using assms ne by (simp add: hd_conv_nth)
  have "last ?w = ?w ! 9" using len ne by (simp add: last_conv_nth)
  also have "\<dots> = wts ! (i + 9)" using assms by simp
  finally have l: "last ?w = wts ! (i + 9)" .
  show ?thesis
    by (simp add: window_wpm_def window_size_def Let_def h l)
qed

lemma window_wpm_nonneg: "0 \<le> window_wpm wts i"
  by (simp add: window_wpm_def Let_def)

lemma sum_list_nonneg_real: "(\<forall>x \<in> set xs. (0::real) \<le> x) \<Longrightarrow> 0 \<le> sum_list xs"
  by (induction xs) simp_all

lemma np_std_const2: "np_std [c, c] = 0" and np_std_single: "np_std [c] = 0"
  by (simp_all add: np_std_def mean_def)

text \<open>
  C3 as stated fails for a sequence of exactly ten words, which is fewer than eleven: the
  source refuses fewer than ten words only, so ten steady words give one window and
  numeric fields, not the insufficient-data marker.
\<close>

theorem C3_counterexample:
  "length (steady_words 10) = 10 \<and> (10::nat) < 11 \<and>
   analyze_pacing_variations (steady_words 10) =
     Inr \<lparr>average_wpm = 60, wpm_standard_deviation = 0, pacing_consistency = 1,
          wpm_timeline = [60]\<rparr>"
proof -
  have len: "length (steady_words 10) = 10" by (simp add: steady_words_def)
  have w: "window_wpm (steady_words 10) 0 = 60"
    by (subst window_wpm_nth) (simp_all add: len steady_words_def)
  have "analyze_pacing_variations (steady_words 10) =
     Inr \<lparr>average_wpm = 60, wpm_standard_deviation = 0, pacing_consistency = 1,
          wpm_timeline = [60]\<rparr>"
    by (simp add: analyze_pacing_variations_def len window_size_def Let_def w np_std_single)
  with len show ?thesis by simp
qed

text \<open>
  C3, amended. For every word-timing sequence with fewer than 10 words the pacing analysis
  reports the insufficient-data marker instead of numeric fields; for every sequence of
  10 or more words it reports the sliding sequence of the rates of all windows of 10
  consecutive words (\<open>length - 9\<close> windows, the rate of a window being \<open>600 / d\<close> for its
  duration \<open>d\<close> from the start of its first word to the end of its last, or \<open>0\<close> when
  \<open>d\<close> is not positive), their average and population standard deviation, and the
  consistency \<open>max 0 (1 - std / mean)\<close>, or \<open>0\<close> when the mean is \<open>0\<close>.
\<close>

theorem C3_pacing:
  "(length wts < 10 \<longrightarrow>
      analyze_pacing_variations wts = Inl ''Insufficient data for pacing analysis'') \<and>
   (10 \<le> length wts \<longrightarrow>
      (\<exists>p. analyze_pacing_variations wts = Inr p \<and>
         length (wpm_timeline p) = length wts - 9 \<and>
         (\<forall>i < length wts - 9.
            wpm_timeline p ! i =
              (let d = end_time (wts ! (i + 9)) - start_time (wts ! i)
               in if d > 0 then 600 / d else 0)) \<and>
         average_wpm p = mean (wpm_timeline p) \<and>
         wpm_standard_deviation p = np_std (wpm_timeline p) \<and>
         pacing_consistency p =
           (if average_wpm p = 0 then 0
            else max 0 (1 - wpm_standard_deviation p / average_wpm p))))"
proof -
  have short: "length wts < 10 \<longrightarrow>
      analyze_pacing_variations wts = Inl ''Insufficient data for pacing analysis''"
    by (simp add: analyze_pacing_variations_def)
  have long: "10 \<le> length wts \<longrightarrow>
      (\<exists>p. analyze_pacing_variations wts = Inr p \<and>
         length (wpm_timeline p) = length wts - 9 \<and>
         (\<forall>i < length wts - 9.
            wpm_timeline p ! i =
              (let d = end_time (wts ! (i + 9)) - start_time (wts ! i)
               in if d > 0 then 600 / d else 0)) \<and>
         average_wpm p = mean (wpm_timeline p) \<and>
         wpm_standard_deviation p = np_std (wpm_timeline p) \<and>
         pacing_consistency p =
           (if average_wpm p = 0 then 0
            else max 0 (1 - wpm_standard_deviation p / average_wpm p)))"
  proof
    assume len: "10 \<le> length wts"
    define tl where "tl = map (window_wpm wts) [0 ..< length wts - window_size + 1]"
    define p where "p = \<lparr>average_wpm = mean tl, wpm_standard_deviation = np_std tl,
        pacing_consistency = (if mean tl > 0 then max 0 (1 - np_std tl / mean tl) else 0),
        wpm_timeline = tl\<rparr>"
    have run: "analyze_pacing_variations wts = Inr p"
      using len by (simp add: analyze_pacing_variations_def Let_def p_def tl_def mean_def)
    have tl_len: "length tl = length wts - 9"
      using len by (simp add: tl_def window_size_def)
    have tl_nth: "\<forall>i < length wts - 9.
            tl ! i = (let d = end_time (wts ! (i + 9)) - start_time (wts ! i)
                      in if d > 0 then 600 / d else 0)"
    proof (intro allI impI)
      fix i assume i: "i < length wts - 9"
      then have "i < length [0 ..< length wts - window_size + 1]"
        using len by (simp add: window_size_def)
      then have "tl ! i = window_wpm wts i"
        unfolding tl_def by (simp del: upt_Suc)
      moreover have "i + 10 \<le> length wts" using i by simp
      ultimately show "tl ! i = (let d = end_time (wts ! (i + 9)) - start_time (wts ! i)
                      in if d > 0 then 600 / d else 0)"
        by (simp add: window_wpm_nth)
    qed
    have "0 \<le> sum_list tl"
      by (rule sum_list_nonneg_real) (auto simp: tl_def window_wpm_nonneg)
    then have mean_nonneg: "0 \<le> mean tl" by (simp add: mean_def)
    have cons: "pacing_consistency p =
           (if average_wpm p = 0 then 0
            else max 0 (1 - wpm_standard_deviation p / average_wpm p))"
      using mean_nonneg by (auto simp: p_def)
    show "\<exists>p. analyze_pacing_variations wts = Inr p \<and>
         length (wpm_timeline p) = length wts - 9 \<and>
         (\<forall>i < length wts - 9.
            wpm_timeline p ! i =
              (let d = end_time (wts ! (i + 9)) - start_time (wts ! i)
               in if d > 0 then 600 / d else 0)) \<and>
         average_wpm p = mean (wpm_timeline p) \<and>
         wpm_standard_deviation p = np_std (wpm_timeline p) \<and>
         pacing_consistency p =
           (if average_wpm p = 0 then 0
            else max 0 (1 - wpm_standard_deviation p / average_wpm p))"
      using run tl_len tl_nth cons by (intro exI [of _ p]) (simp add: p_def)
  qed
  from short long show ?thesis by blast
qed

text \<open>The amended theorem at nine and at eleven steady words.\<close>

theorem C3_pacing_witness:
  "length (steady_words 9) < 10 \<and>
   analyze_pacing_variations (steady_words 9) = Inl ''Insufficient data for pacing analysis'' \<and>
   10 \<le> length (steady_words 11) \<and>
   (\<exists>p. analyze_pacing_variations (steady_words 11) = Inr p \<and>
      length (wpm_timeline p) = 2 \<and> wpm_timeline p ! 0 = 60 \<and> wpm_timeline p ! 1 = 60)"
proof -
  have l9: "length (steady_words 9) < 10" and l11: "10 \<le> length (steady_words 11)"
    by (simp_all add: steady_words_def)
  have short: "analyze_pacing_variations (steady_words 9) =
      Inl ''Insufficient data for pacing analysis''"
    using C3_pacing [of "steady_words 9"] l9 by blast
  obtain p where p: "analyze_pacing_variations (steady_words 11) = Inr p"
    and n: "length (wpm_timeline p) = length (steady_words 11) - 9"
    and v: "\<forall>i < length (steady_words 11) - 9.
            wpm_timeline p ! i =
              (let d = end_time (steady_words 11 ! (i + 9)) - start_time (steady_words 11 ! i)
               in if d > 0 then 600 / d else 0)"
    using C3_pacing [of "steady_words 11"] l11 by blast
  have len: "length (steady_words 11) = 11" by (simp add: steady_words_def)
  have "wpm_timeline p ! 0 = 60" "wpm_timeline p ! 1 = 60"
    using v by (simp_all add: len steady_words_def)
  with l9 short l11 p n len show ?thesis by auto
qed

section \<open>Frame sampling\<close>

lemma read_loop_zero:
  "read_loop 0 rate (f # fs) n acc = Inl ZeroDivisionError"
  by simp

lemma read_loop_eq:
  assumes "stride \<noteq> 0"
  shows "read_loop stride rate fs n acc =
     Inr (acc @ map (\<lambda>i. \<lparr>timestamp = real i / rate, image = fs ! (i - n), frame_number = i\<rparr>)
                  (filter (\<lambda>i. int i mod stride = 0) [n ..< n + length fs]))"
proof (induction fs arbitrary: n acc)
  case Nil
  show ?case by simp
next
  case (Cons f fs)
  define rest where "rest = filter (\<lambda>i. int i mod stride = 0) [Suc n ..< Suc n + length fs]"
  have IH: "read_loop stride rate fs (Suc n) acc' =
      Inr (acc' @ map (\<lambda>i. \<lparr>timestamp = real i / rate, image = fs ! (i - Suc n),
                              frame_number = i\<rparr>) rest)" for acc'
    unfolding rest_def by (rule Cons.IH)
  have shift: "map (\<lambda>i. \<lparr>timestamp = real i / rate, image = (f # fs) ! (i - n), frame_number = i\<rparr>) rest =
               map (\<lambda>i. \<lparr>timestamp = real i / rate, image = fs ! (i - Suc n), frame_number = i\<rparr>) rest"
  proof (rule map_cong [OF refl])
    fix i
    assume "i \<in> set rest"
    then have "Suc n \<le> i" unfolding rest_def by (simp del: upt_Suc)
    then have "i - n = Suc (i - Suc n)" by simp
    then show "\<lparr>timestamp = real i / rate, image = (f # fs) ! (i - n), frame_number = i\<rparr> =
               \<lparr>timestamp = real i / rate, image = fs ! (i - Suc n), frame_number = i\<rparr>"
      by simp
  qed
  have upt: "[n ..< n + length (f # fs)] = n # [Suc n ..< Suc n + length fs]"
  proof -
    have "n < n + length (f # fs)" by simp
    then have "[n ..< n + length (f # fs)] = n # [Suc n ..< n + length (f # fs)]"
      by (rule upt_conv_Cons)
    moreover have "n + length (f # fs) = Suc n + length fs" by simp
    ultimately show ?thesis by (simp only:)
  qed
  have sel: "filter (\<lambda>i. int i mod stride = 0) [n ..< n + length (f # fs)] =
      (if int n mod stride = 0 then n # rest else rest)"
    unfolding upt rest_def by (simp del: upt_Suc)
  show ?case
  proof (cases "int n mod stride = 0")
    case True
    have "read_loop stride rate (f # fs) n acc =
        read_loop stride rate fs (Suc n)
          (acc @ [\<lparr>timestamp = real n / rate, image = f, frame_number = n\<rparr>])"
      using assms True by simp
    then show ?thesis
      unfolding sel IH using True by (simp add: shift)
  next
    case False
    have "read_loop stride rate (f # fs) n acc = read_loop stride rate fs (Suc n) acc"
      using assms False by simp
    then show ?thesis
      unfolding sel IH using False by (simp add: shift)
  qed
qed

text \<open>A stride of \<open>0\<close> makes the sampler fail on every video that has a frame; a video
  without frames yields no entry.\<close>

lemma extract_video_frames_zero_stride:
  assumes "frame_interval_of (fps v) interval_seconds = 0"
  shows "extract_video_frames v interval_seconds =
     (if decoded_frames v = [] then Inr [] else Inl ZeroDivisionError)"
  using assms by (cases "decoded_frames v") (simp_all add: extract_video_frames_def)

lemma extract_video_frames_eq:
  assumes "frame_interval_of (fps v) interval_seconds \<noteq> 0"
  shows "extract_video_frames v interval_seconds =
     Inr (map (sampled_frame (fps v) (decoded_frames v))
            (filter (\<lambda>i. int i mod frame_interval_of (fps v) interval_seconds = 0)
               [0 ..< length (decoded_frames v)]))"
  using read_loop_eq [OF assms, of "fps v" "decoded_frames v" 0 "[]"]
  by (simp add: extract_video_frames_def sampled_frame_def)

text \<open>
  C7 as stated fails. At 29.97 frames per second and an interval of one second the source
  truncates the product to the stride 29, where rounding gives 30: of 31 decoded frames
  it samples the frames 0 and 29. And at 30 frames per second with an interval of 0.03
  seconds the product 0.9 truncates to the stride 0 (rounding gives 1), on which the
  sampler raises \<^verbatim>\<open>ZeroDivisionError\<close> at the first frame instead of yielding pairs.
\<close>

theorem C7_counterexample:
  "frame_interval_of (2997 / 100) 1 = 29 \<and> spec_frame_stride (2997 / 100) 1 = 30 \<and>
   map_sum id (map frame_number)
     (extract_video_frames \<lparr>fps = 2997 / 100, decoded_frames = replicate 31 ()\<rparr> 1) = Inr [0, 29] \<and>
   frame_interval_of 30 (3 / 100) = 0 \<and> spec_frame_stride 30 (3 / 100) = 1 \<and>
   extract_video_frames \<lparr>fps = 30, decoded_frames = [()]\<rparr> (3 / 100) = Inl ZeroDivisionError"
proof -
  have s29: "frame_interval_of (2997 / 100) 1 = 29"
    by (simp add: frame_interval_of_def py_int_def)
  have s30: "spec_frame_stride (2997 / 100) 1 = 30"
    by (simp add: spec_frame_stride_def round_def)
  have sel: "filter (\<lambda>i. int i mod 29 = 0) [0 ..< 31] = [0, 29]"
    by code_simp
  have run: "map_sum id (map frame_number)
     (extract_video_frames \<lparr>fps = 2997 / 100, decoded_frames = replicate 31 ()\<rparr> 1) = Inr [0, 29]"
    by (subst extract_video_frames_eq) (simp_all add: s29 sel sampled_frame_def)
  have z: "frame_interval_of 30 (3 / 100) = 0"
    by (simp add: frame_interval_of_def py_int_def)
  have o: "spec_frame_stride 30 (3 / 100) = 1"
    by (simp add: spec_frame_stride_def round_def)
  have fail: "extract_video_frames \<lparr>fps = 30, decoded_frames = [()]\<rparr> (3 / 100) =
      Inl ZeroDivisionError"
    by (simp add: extract_video_frames_def z)
  from s29 s30 run z o fail show ?thesis by simp
qed

text \<open>
  C7, amended. For every decodable video and every sampling interval for which
  \<open>frame_rate \<times> interval\<close>, truncated towards zero, is not \<open>0\<close>, the frame sampler takes
  this truncation as its stride and returns, in frame order, one entry for each decoded
  frame whose index is a multiple of the stride, with \<open>timestamp = index / frame_rate\<close>
  and that frame as image; it ends when the source is exhausted.
\<close>

theorem C7_frame_sampler:
  assumes "frame_interval_of (fps v) interval_seconds \<noteq> 0"
  shows "frame_interval_of (fps v) interval_seconds =
       (if fps v * interval_seconds \<ge> 0 then \<lfloor>fps v * interval_seconds\<rfloor>
        else \<lceil>fps v * interval_seconds\<rceil>) \<and>
     extract_video_frames v interval_seconds =
       Inr (map (\<lambda>i. \<lparr>timestamp = real i / fps v, image = decoded_frames v ! i,
                        frame_number = i\<rparr>)
              (filter (\<lambda>i. int i mod frame_interval_of (fps v) interval_seconds = 0)
                 [0 ..< length (decoded_frames v)]))"
  using extract_video_frames_eq [OF assms]
  by (simp add: frame_interval_of_def py_int_def sampled_frame_def)

text \<open>The amended theorem at three frames, two frames per second, one sample per second.\<close>

theorem C7_frame_sampler_witness:
  "frame_interval_of (fps \<lparr>fps = 2, decoded_frames = [''a'', ''b'', ''c'']\<rparr>) 1 \<noteq> 0 \<and>
   extract_video_frames \<lparr>fps = 2, decoded_frames = [''a'', ''b'', ''c'']\<rparr> 1 =
     Inr [\<lparr>timestamp = 0, image = ''a'', frame_number = 0\<rparr>,
          \<lparr>timestamp = 1, image = ''c'', frame_number = 2\<rparr>]"
proof -
  have h: "frame_interval_of (fps \<lparr>fps = 2, decoded_frames = [''a'', ''b'', ''c'']\<rparr>) 1 \<noteq> 0"
    by (simp add: frame_interval_of_def py_int_def)
  have s: "frame_interval_of 2 1 = 2" by (simp add: frame_interval_of_def py_int_def)
  have f: "filter (\<lambda>i. int i mod 2 = 0) [0 ..< 3] = [0, 2]" by code_simp
  from C7_frame_sampler [OF h] have
    "extract_video_frames \<lparr>fps = 2, decoded_frames = [''a'', ''b'', ''c'']\<rparr> 1 =
     Inr [\<lparr>timestamp = 0, image = ''a'', frame_number = 0\<rparr>,
          \<lparr>timestamp = 1, image = ''c'', frame_number = 2\<rparr>]"
    by (simp add: s f eval_nat_numeral)
  with h show ?thesis by blast
qed

section \<open>Emotion statistics\<close>

lemma py_max_Max: "values \<noteq> [] \<Longrightarrow> py_max values = Max (set values)"
  by (cases "values") (simp_all add: Max.set_eq_fold [symmetric])

lemma py_min_Min: "values \<noteq> [] \<Longrightarrow> py_min values = Min (set values)"
  by (cases "values") (simp_all add: Min.set_eq_fold [symmetric])

lemma emotion_statistics_eq:
  assumes "timeline \<noteq> []"
  shows "calculate_emotion_statistics timeline =
     [(''joy'', summary_of (map (\<lambda>frame. joy (ef_emotions frame)) timeline)),
      (''sorrow'', summary_of (map (\<lambda>frame. sorrow (ef_emotions frame)) timeline)),
      (''anger'', summary_of (map (\<lambda>frame. anger (ef_emotions frame)) timeline)),
      (''surprise'', summary_of (map (\<lambda>frame. surprise (ef_emotions frame)) timeline))]"
  using assms
  by (simp add: calculate_emotion_statistics_def emotion_keys_def Let_def summary_of_def
      mean_def py_max_Max py_min_Min)

text \<open>
  C8 as stated fails. The timeline carries seven likelihood scores per frame, but the
  statistics are computed for the four keys of \<^verbatim>\<open>emotion_keys\<close> only: for a one-frame
  timeline the statistics have the keys joy, sorrow, anger and surprise, and none for
  under_exposed, blurred or headwear.
\<close>

theorem C8_counterexample:
  "map fst (emotion_statistics (facial_report [sample_frame])) =
     [''joy'', ''sorrow'', ''anger'', ''surprise''] \<and>
   map_of (emotion_statistics (facial_report [sample_frame])) ''under_exposed'' = None \<and>
   map_of (emotion_statistics (facial_report [sample_frame])) ''blurred'' = None \<and>
   map_of (emotion_statistics (facial_report [sample_frame])) ''headwear'' = None"
  by (simp add: facial_report_def calculate_emotion_statistics_def emotion_keys_def Let_def)

text \<open>
  C8, amended. For every emotion timeline that is not empty the facial analysis computes
  the statistics (average, max, min, population standard deviation) of each emotion of
  the set joy, sorrow, anger, surprise, in this order and for no other key; when the
  timeline is empty the statistics mapping is empty and \<open>average_detection_confidence\<close>
  is \<open>0\<close>.
\<close>

theorem C8_emotion_statistics:
  "(timeline = [] \<longrightarrow>
      emotion_statistics (facial_report timeline) = [] \<and>
      average_detection_confidence (facial_report timeline) = 0) \<and>
   (timeline \<noteq> [] \<longrightarrow>
      emotion_statistics (facial_report timeline) =
        [(''joy'', summary_of (map (\<lambda>frame. joy (ef_emotions frame)) timeline)),
         (''sorrow'', summary_of (map (\<lambda>frame. sorrow (ef_emotions frame)) timeline)),
         (''anger'', summary_of (map (\<lambda>frame. anger (ef_emotions frame)) timeline)),
         (''surprise'', summary_of (map (\<lambda>frame. surprise (ef_emotions frame)) timeline))])"
  using emotion_statistics_eq [of timeline]
  by (simp add: facial_report_def calculate_emotion_statistics_def)

text \<open>The amended theorem at the empty timeline and at a timeline of one frame.\<close>

theorem C8_emotion_statistics_witness:
  "emotion_statistics (facial_report []) = [] \<and>
   average_detection_confidence (facial_report []) = 0 \<and>
   [sample_frame] \<noteq> [] \<and>
   map_of (emotion_statistics (facial_report [sample_frame])) ''joy'' =
     Some \<lparr>stat_average = 9 / 10, stat_max = 9 / 10, stat_min = 9 / 10, stat_std = 0\<rparr>"
  using C8_emotion_statistics [of "[]"] C8_emotion_statistics [of "[sample_frame]"]
  by (simp add: summary_of_def sample_frame_def mean_def np_std_def)

text \<open>Whatever the facial branch returns as metrics is the report of its timeline.\<close>

lemma facial_analysis_report:
  "analyze_facial_expressions detect download = Inr r \<Longrightarrow> r = facial_report (emotion_timeline r)"
  by (auto simp: analyze_facial_expressions_def facial_report_def split: sum.splits)

end
